theory Spec2Isabelle
  imports Main "HOL-Library.Word"
begin

section \<open>Python values used by \<^verbatim>\<open>auth_handlers/hubzilla.py\<close>\<close>

text \<open>
  A Python \<^verbatim>\<open>str\<close> is a sequence of Unicode code points, a \<^verbatim>\<open>bytes\<close> object a
  sequence of octets. Code points are natural numbers; no Python string holds a value
  above \<^verbatim>\<open>0x10FFFF\<close>. The ASCII literals of the source are written with \<open>py_str\<close>.
\<close>

type_synonym codepoint = nat
type_synonym str = "codepoint list"
type_synonym byte = "8 word"

definition py_str :: "string \<Rightarrow> str" where
  "py_str cs = map of_char cs"

text \<open>The exceptions that can leave one of the functions of the module.\<close>

datatype exn =
    RequestException
  | ValueError
  | KeyError
  | TypeError
  | UnicodeEncodeError
  | UnicodeDecodeError
  | EOFError
  | SystemExit int

section \<open>The fragment of \<^verbatim>\<open>re\<close> the module uses\<close>

text \<open>
  The three patterns of \<^verbatim>\<open>main\<close> are built from literal characters, \<^verbatim>\<open>.\<close>,
  \<^verbatim>\<open>^\<close>, \<^verbatim>\<open>$\<close>, \<^verbatim>\<open>?\<close> and \<^verbatim>\<open>*\<close>, all without flags: \<^verbatim>\<open>.\<close> matches every
  character but the line feed, \<^verbatim>\<open>^\<close> matches at the start of the string only, and
  \<^verbatim>\<open>$\<close> matches at the end of the string and just before a line feed that ends it.

  \<open>ends r n s\<close> lists what is left of \<open>s\<close> after each way of matching \<open>r\<close> at the front of
  \<open>s\<close>, in the order a backtracking matcher tries them (greedy operators take the longer
  alternative first); \<open>n\<close> is the length of the whole subject string, so that the position
  of \<open>s\<close> in it is \<open>n - length s\<close>. The head of the list is the match that \<^verbatim>\<open>re\<close> reports.
\<close>

datatype regex =
    Chr codepoint
  | Dot
  | Bol
  | Eol
  | Seq regex regex
  | Opt regex
  | Star regex

abbreviation ch :: "char \<Rightarrow> regex" where
  "ch c \<equiv> Chr (of_char c)"

fun ends :: "regex \<Rightarrow> nat \<Rightarrow> str \<Rightarrow> str list" where
  "ends (Chr c) n s = (case s of [] \<Rightarrow> [] | x # t \<Rightarrow> if x = c then [t] else [])"
| "ends Dot n s = (case s of [] \<Rightarrow> [] | x # t \<Rightarrow> if x \<noteq> 10 then [t] else [])"
| "ends Bol n s = (if length s = n then [s] else [])"
| "ends Eol n s = (if s = [] \<or> s = [10] then [s] else [])"
| "ends (Seq a b) n s = concat (map (ends b n) (ends a n s))"
| "ends (Opt a) n s = ends a n s @ [s]"
| "ends (Star a) n s =
     concat (map (\<lambda>t. if length t < length s then ends (Star a) n t else []) (ends a n s)) @ [s]"

text \<open>
  \<^verbatim>\<open>re.sub(pattern, repl, string)\<close> with a plain replacement string and no count: the
  leftmost match is replaced and the scan goes on behind it; where nothing matches, one
  character is copied. An empty match is replaced too, and the character behind it copied:
  the operators of this fragment are all greedy, so where the first match is empty no
  other match begins at that position.
\<close>

fun sub_from :: "regex \<Rightarrow> str \<Rightarrow> nat \<Rightarrow> str \<Rightarrow> str" where
  "sub_from r repl n s =
     (case ends r n s of
        e # _ \<Rightarrow>
          if length e < length s then repl @ sub_from r repl n e
          else repl @ (case s of [] \<Rightarrow> [] | x # t \<Rightarrow> x # sub_from r repl n t)
      | [] \<Rightarrow> (case s of [] \<Rightarrow> [] | x # t \<Rightarrow> x # sub_from r repl n t))"

declare sub_from.simps [simp del]

definition re_sub :: "regex \<Rightarrow> str \<Rightarrow> str \<Rightarrow> str" where
  "re_sub r repl s = sub_from r repl (length s) s"

text \<open>The patterns \<^verbatim>\<open>"^https?://"\<close>, \<^verbatim>\<open>"/.*$"\<close> and \<^verbatim>\<open>"^@"\<close>.\<close>

definition scheme_re :: regex where
  "scheme_re =
     Seq Bol (Seq (ch CHR ''h'') (Seq (ch CHR ''t'') (Seq (ch CHR ''t'') (Seq (ch CHR ''p'')
       (Seq (Opt (ch CHR ''s'')) (Seq (ch CHR '':'') (Seq (ch CHR ''/'') (ch CHR ''/''))))))))"

definition path_re :: regex where
  "path_re = Seq (ch CHR ''/'') (Seq (Star Dot) Eol)"

definition at_re :: regex where
  "at_re = Seq Bol (ch CHR ''@'')"

section \<open>UTF-8 and Base64\<close>

text \<open>
  \<^verbatim>\<open>s.encode("utf-8")\<close>: one to four octets for each code point; a surrogate
  (\<^verbatim>\<open>U+D800\<close> to \<^verbatim>\<open>U+DFFF\<close>) raises \<^verbatim>\<open>UnicodeEncodeError\<close>.
\<close>

definition utf8_of :: "codepoint \<Rightarrow> exn + byte list" where
  "utf8_of cp =
     (if cp < 0x80 then Inr [of_nat cp]
      else if cp < 0x800 then Inr [of_nat (0xC0 + cp div 64), of_nat (0x80 + cp mod 64)]
      else if 0xD800 \<le> cp \<and> cp \<le> 0xDFFF then Inl UnicodeEncodeError
      else if cp < 0x10000 then
        Inr [of_nat (0xE0 + cp div 4096), of_nat (0x80 + cp div 64 mod 64),
             of_nat (0x80 + cp mod 64)]
      else if cp < 0x110000 then
        Inr [of_nat (0xF0 + cp div 262144), of_nat (0x80 + cp div 4096 mod 64),
             of_nat (0x80 + cp div 64 mod 64), of_nat (0x80 + cp mod 64)]
      else Inl UnicodeEncodeError)"

fun encode_utf8 :: "str \<Rightarrow> exn + byte list" where
  "encode_utf8 [] = Inr []"
| "encode_utf8 (c # cs) =
     (case utf8_of c of
        Inl e \<Rightarrow> Inl e
      | Inr bs \<Rightarrow> (case encode_utf8 cs of Inl e \<Rightarrow> Inl e | Inr r \<Rightarrow> Inr (bs @ r)))"

text \<open>
  \<^verbatim>\<open>str(b, "utf-8")\<close>: the strict decoder. A stray continuation octet, a truncated
  sequence, an overlong form, a surrogate and a value above \<^verbatim>\<open>U+10FFFF\<close> raise
  \<^verbatim>\<open>UnicodeDecodeError\<close>.
\<close>

definition cont :: "byte \<Rightarrow> bool" where
  "cont b \<longleftrightarrow> 0x80 \<le> b \<and> b < 0xC0"

definition push :: "codepoint \<Rightarrow> exn + str \<Rightarrow> exn + str" where
  "push c r = (case r of Inl e \<Rightarrow> Inl e | Inr s \<Rightarrow> Inr (c # s))"

fun decode_utf8 :: "byte list \<Rightarrow> exn + str" where
  "decode_utf8 [] = Inr []"
| "decode_utf8 (b0 # bs) =
     (if b0 < 0x80 then push (unat b0) (decode_utf8 bs)
      else if b0 < 0xC2 then Inl UnicodeDecodeError
      else if b0 < 0xE0 then
        (case bs of
           b1 # r \<Rightarrow>
             if cont b1
             then push ((unat b0 - 0xC0) * 64 + (unat b1 - 0x80)) (decode_utf8 r)
             else Inl UnicodeDecodeError
         | _ \<Rightarrow> Inl UnicodeDecodeError)
      else if b0 < 0xF0 then
        (case bs of
           b1 # b2 # r \<Rightarrow>
             (let cp = (unat b0 - 0xE0) * 4096 + (unat b1 - 0x80) * 64 + (unat b2 - 0x80)
              in if cont b1 \<and> cont b2 \<and> 0x800 \<le> cp \<and> \<not> (0xD800 \<le> cp \<and> cp \<le> 0xDFFF)
                 then push cp (decode_utf8 r)
                 else Inl UnicodeDecodeError)
         | _ \<Rightarrow> Inl UnicodeDecodeError)
      else if b0 < 0xF5 then
        (case bs of
           b1 # b2 # b3 # r \<Rightarrow>
             (let cp = (unat b0 - 0xF0) * 262144 + (unat b1 - 0x80) * 4096
                       + (unat b2 - 0x80) * 64 + (unat b3 - 0x80)
              in if cont b1 \<and> cont b2 \<and> cont b3 \<and> 0x10000 \<le> cp \<and> cp \<le> 0x10FFFF
                 then push cp (decode_utf8 r)
                 else Inl UnicodeDecodeError)
         | _ \<Rightarrow> Inl UnicodeDecodeError)
      else Inl UnicodeDecodeError)"

text \<open>
  \<^verbatim>\<open>base64.b64encode\<close>: the standard alphabet of RFC 4648. Three octets make a 24-bit
  group that is written as four 6-bit digits; a last group of one or two octets is filled
  with zero bits to 12 or 18 bits and padded with \<^verbatim>\<open>=\<close>.
\<close>

definition b64_alphabet :: string where
  "b64_alphabet = ''ABCDEFGHIJKLMNOPQRSTUVWXYZabcdefghijklmnopqrstuvwxyz0123456789+/''"

definition b64_digit :: "nat \<Rightarrow> byte" where
  "b64_digit i = of_char (b64_alphabet ! i)"

fun b64encode :: "byte list \<Rightarrow> byte list" where
  "b64encode [] = []"
| "b64encode [a] =
     (let n = unat a * 16
      in [b64_digit (n div 64), b64_digit (n mod 64), of_char CHR ''='', of_char CHR ''=''])"
| "b64encode [a, b] =
     (let n = (unat a * 256 + unat b) * 4
      in [b64_digit (n div 4096), b64_digit (n div 64 mod 64), b64_digit (n mod 64),
          of_char CHR ''=''])"
| "b64encode (a # b # c # r) =
     (let n = unat a * 65536 + unat b * 256 + unat c
      in [b64_digit (n div 262144), b64_digit (n div 4096 mod 64), b64_digit (n div 64 mod 64),
          b64_digit (n mod 64)] @ b64encode r)"

section \<open>The HTTP client\<close>

text \<open>
  A parsed JSON document as \<^verbatim>\<open>json.loads\<close> returns it: \<^verbatim>\<open>None\<close>, a bool, an int, a
  float (an integer times a power of two, an infinity or a NaN), a str, a list, or a dict
  with str keys (its items, every key once).
\<close>

datatype pyfloat = Finite int int | PosInf | NegInf | NaN

datatype json_value =
    JNone
  | JBool bool
  | JInt int
  | JFloat pyfloat
  | JStr str
  | JList "json_value list"
  | JDict "(str \<times> json_value) list"

text \<open>
  The arguments of \<^verbatim>\<open>requests.request\<close> (\<open>http_method\<close> is the first, the HTTP
  verb; a keyword the call leaves out is \<^verbatim>\<open>None\<close>), and what the module reads of the response: \<^verbatim>\<open>status_code\<close> and the result
  of \<^verbatim>\<open>.json()\<close>, which is \<open>None\<close> when the body is not a JSON document (the call
  raises a \<^verbatim>\<open>ValueError\<close> then).
\<close>

record request =
  http_method :: str
  url :: str
  data :: "str option"
  headers :: "(str \<times> str) list option"
  params :: "(str \<times> str) list option"

record response =
  status_code :: int
  json :: "json_value option"

text \<open>
  The remote side: what the client returns for each request, a response or the exception
  it raises (no connection, a malformed URL, a timeout).
\<close>

type_synonym net = "request \<Rightarrow> exn + response"

section \<open>The process: standard input, terminal, output, requests\<close>

text \<open>
  \<open>stdin\<close> holds the characters not yet read from standard input; \<open>tty\<close> those of the
  controlling terminal that \<^verbatim>\<open>getpass\<close> reads, or \<open>None\<close> when there is none and
  \<^verbatim>\<open>getpass\<close> falls back to standard input; \<open>trace\<close> records in order what was written
  to standard output, the password prompts, and the requests issued.
\<close>

datatype event = Stdout str | Getpass_prompt str | Http request

record world =
  stdin :: str
  tty :: "str option"
  trace :: "event list"

type_synonym 'a io = "world \<Rightarrow> (exn + 'a) \<times> world"

definition io_return :: "'a \<Rightarrow> 'a io" where
  "io_return x = (\<lambda>w. (Inr x, w))"

definition io_raise :: "exn \<Rightarrow> 'a io" where
  "io_raise e = (\<lambda>w. (Inl e, w))"

definition io_bind :: "'a io \<Rightarrow> ('a \<Rightarrow> 'b io) \<Rightarrow> 'b io" where
  "io_bind m f = (\<lambda>w. case m w of (Inl e, w') \<Rightarrow> (Inl e, w') | (Inr x, w') \<Rightarrow> f x w')"

definition io_lift :: "exn + 'a \<Rightarrow> 'a io" where
  "io_lift r = (\<lambda>w. (r, w))"

definition emit :: "event \<Rightarrow> world \<Rightarrow> world" where
  "emit ev w = w\<lparr>trace := trace w @ [ev]\<rparr>"

text \<open>\<^verbatim>\<open>print(text, end=e)\<close>; the default \<^verbatim>\<open>end\<close> is a line feed.\<close>

definition print :: "str \<Rightarrow> str \<Rightarrow> unit io" where
  "print text e = (\<lambda>w. (Inr (), emit (Stdout (text @ e)) w))"

text \<open>
  Reading one line: \<open>None\<close> at the end of the input; otherwise the characters up to the
  first line feed, without it, and the rest of the input behind it.
\<close>

definition readline :: "str \<Rightarrow> (str \<times> str) option" where
  "readline s =
     (if s = [] then None
      else Some (takeWhile (\<lambda>c. c \<noteq> 10) s, drop 1 (dropWhile (\<lambda>c. c \<noteq> 10) s)))"

definition input :: "str \<Rightarrow> str io" where
  "input prompt =
     (\<lambda>w. let w1 = emit (Stdout prompt) w
          in case readline (stdin w1) of
               None \<Rightarrow> (Inl EOFError, w1)
             | Some (line, rest) \<Rightarrow> (Inr line, w1\<lparr>stdin := rest\<rparr>))"

definition getpass :: "str \<Rightarrow> str io" where
  "getpass prompt =
     (\<lambda>w. let w1 = emit (Getpass_prompt prompt) w
          in case tty w1 of
               Some t \<Rightarrow>
                 (case readline t of
                    None \<Rightarrow> (Inl EOFError, w1)
                  | Some (line, rest) \<Rightarrow> (Inr line, w1\<lparr>tty := Some rest\<rparr>))
             | None \<Rightarrow>
                 (case readline (stdin w1) of
                    None \<Rightarrow> (Inl EOFError, w1)
                  | Some (line, rest) \<Rightarrow> (Inr line, w1\<lparr>stdin := rest\<rparr>)))"

definition requests_request :: "net \<Rightarrow> request \<Rightarrow> response io" where
  "requests_request net rq = (\<lambda>w. (net rq, emit (Http rq) w))"

text \<open>\<^verbatim>\<open>exit(code)\<close> raises \<^verbatim>\<open>SystemExit\<close>; the process ends with that status.\<close>

definition exit :: "int \<Rightarrow> 'a io" where
  "exit code = io_raise (SystemExit code)"

text \<open>\<^verbatim>\<open>r.json()\<close> and \<^verbatim>\<open>v[key]\<close> with a str key.\<close>

definition response_json :: "response \<Rightarrow> exn + json_value" where
  "response_json r = (case json r of None \<Rightarrow> Inl ValueError | Some v \<Rightarrow> Inr v)"

definition getitem :: "json_value \<Rightarrow> str \<Rightarrow> exn + json_value" where
  "getitem v key =
     (case v of
        JDict items \<Rightarrow> (case map_of items key of None \<Rightarrow> Inl KeyError | Some x \<Rightarrow> Inr x)
      | _ \<Rightarrow> Inl TypeError)"

section \<open>The three checks\<close>

definition basic_check :: "net \<Rightarrow> str \<Rightarrow> bool io" where
  "basic_check net instance =
     (let host_meta_url = py_str ''https://'' @ instance @ py_str ''/.well-known/host-meta''
      in io_bind (requests_request net
                    \<lparr>http_method = py_str ''GET'', url = host_meta_url, data = None,
                     headers = None, params = None\<rparr>) (\<lambda>host_meta.
         if status_code host_meta = 200 then io_return True else io_return False))"

definition check_nodeinfo :: "net \<Rightarrow> str \<Rightarrow> bool io" where
  "check_nodeinfo net instance =
     (let nodeinfo_url = py_str ''https://'' @ instance @ py_str ''/nodeinfo/2.0''
      in io_bind (requests_request net
                    \<lparr>http_method = py_str ''GET'', url = nodeinfo_url, data = None,
                     headers = None, params = None\<rparr>) (\<lambda>nodeinfo_req.
         if status_code nodeinfo_req = 404 then io_return True
         else
           io_bind (io_lift (response_json nodeinfo_req)) (\<lambda>nodeinfo.
           io_bind (io_lift (getitem nodeinfo (py_str ''software''))) (\<lambda>software.
           io_bind (io_lift (getitem software (py_str ''name''))) (\<lambda>name.
           if name = JStr (py_str ''hubzilla'') \<or> name = JStr (py_str ''redmatrix'')
           then io_return True else io_return False)))))"

definition check_usercred :: "net \<Rightarrow> str \<Rightarrow> str \<Rightarrow> str \<Rightarrow> bool io" where
  "check_usercred net instance channel_name password =
     (let usercheck_creds = channel_name @ py_str '':'' @ password
      in io_bind (io_lift (encode_utf8 usercheck_creds)) (\<lambda>encoded.
         io_bind (io_lift (decode_utf8 (b64encode encoded))) (\<lambda>usercheck_cred64.
         let usercheck_header = [(py_str ''authorization'', py_str ''Basic '' @ usercheck_cred64)];
             usercheck_url = py_str ''https://'' @ instance @ py_str ''/api/z/1.0/channel/export/basic'';
             usercheck_params = [(py_str ''sections'', py_str ''channel''), (py_str ''posts'', py_str ''0'')]
         in io_bind (requests_request net
                       \<lparr>http_method = py_str ''POST'', url = usercheck_url, data = Some [],
                        headers = Some usercheck_header, params = Some usercheck_params\<rparr>)
              (\<lambda>usercheck.
         if status_code usercheck = 200 then io_return True else io_return False))))"

section \<open>The orchestrator\<close>

text \<open>
  The local variables of \<^verbatim>\<open>main\<close> when it returns (\<open>instance'\<close> is the variable
  \<^verbatim>\<open>instance\<close>).
\<close>

record locals =
  account_name :: str
  account_type :: int
  instance' :: str
  channel_name :: str
  password :: str
  pword :: str

definition nl :: str where
  "nl = [10]"

definition main :: "net \<Rightarrow> locals io" where
  "main net =
     io_bind (print (py_str ''Cross - a Mastodon/Hubzilla cross-poster'') nl) (\<lambda>_.
     io_bind (print (py_str ''       Holly Lotor Montalvo  2020       '') nl) (\<lambda>_.
     io_bind (print (py_str ''----------------------------------------'') (nl @ nl)) (\<lambda>_.
     io_bind (input (py_str ''Please enter your instance'' @ [39]
                      @ py_str ''s domain (i.e. example.com): '')) (\<lambda>entered.
     let inst = re_sub path_re [] (re_sub scheme_re [] entered)
     in
     io_bind (basic_check net inst) (\<lambda>reachable.
     io_bind (if reachable = False
              then io_bind (print (py_str ''Instance returned error upon validation. Something''
                                    @ [39] @ py_str ''s amiss with the instance. Bailing...'') nl)
                     (\<lambda>_. exit 1)
              else io_return ()) (\<lambda>_.
     io_bind (check_nodeinfo net inst) (\<lambda>identified.
     io_bind (if identified = False
              then io_bind (print (py_str ''Nodeinfo claims this isn'' @ [39]
                                    @ py_str ''t a Hubzilla instance. Bailing...'') nl)
                     (\<lambda>_. exit 1)
              else io_return ()) (\<lambda>_.
     io_bind (input (py_str ''Please enter your channel name (this is what goes before @''
                      @ inst @ py_str ''): '')) (\<lambda>typed.
     let chan = re_sub at_re [] typed
     in
     io_bind (getpass (py_str ''Enter your password: '')) (\<lambda>pw.
     io_bind (check_usercred net inst chan pw) (\<lambda>authorized.
     io_bind (if authorized = False
              then io_bind (print (py_str ''Authorization attempt failed. Bailing...'') nl)
                     (\<lambda>_. exit 1)
              else io_return ()) (\<lambda>_.
     io_return
       \<lparr>account_name = py_str ''@'' @ chan @ py_str ''@'' @ inst, account_type = 1,
        instance' = inst, channel_name = chan, password = [], pword = pw\<rparr>))))))))))))"


section \<open>The sanitization in the words of the specification\<close>

text \<open>
  What section 4.4 of the specification says the three substitutions do: strip an
  \<^verbatim>\<open>http://\<close> or \<^verbatim>\<open>https://\<close> prefix, cut the path beginning at the first \<^verbatim>\<open>/\<close>,
  strip a single leading \<^verbatim>\<open>@\<close>. They are compared with \<open>re_sub\<close> on the three patterns
  below.
\<close>

definition spec_strip_scheme :: "str \<Rightarrow> str" where
  "spec_strip_scheme s =
     (if take 7 s = py_str ''http://'' then drop 7 s
      else if take 8 s = py_str ''https://'' then drop 8 s
      else s)"

definition spec_strip_path :: "str \<Rightarrow> str" where
  "spec_strip_path s = takeWhile (\<lambda>c. c \<noteq> of_char CHR ''/'') s"

definition spec_strip_at :: "str \<Rightarrow> str" where
  "spec_strip_at s = (case s of [] \<Rightarrow> [] | c # t \<Rightarrow> if c = of_char CHR ''@'' then t else s)"

section \<open>Example runs\<close>

text \<open>
  Remote sides: a Hubzilla instance that answers every request with 200 and the nodeinfo
  document \<^verbatim>\<open>{"software": {"name": "hubzilla"}}\<close>; one whose document names
  \<^verbatim>\<open>Hubzilla\<close> with a capital; one that answers 200 with a body that is no JSON; one that
  answers 404 and one that answers 500 to everything; and a host that cannot be reached.
\<close>

definition hubzilla_net :: net where
  "hubzilla_net rq =
     Inr \<lparr>status_code = 200,
          json = Some (JDict [(py_str ''software'',
                               JDict [(py_str ''name'', JStr (py_str ''hubzilla''))])])\<rparr>"

definition capital_net :: net where
  "capital_net rq =
     Inr \<lparr>status_code = 200,
          json = Some (JDict [(py_str ''software'',
                               JDict [(py_str ''name'', JStr (py_str ''Hubzilla''))])])\<rparr>"

definition garbled_net :: net where
  "garbled_net rq = Inr \<lparr>status_code = 200, json = None\<rparr>"

definition empty_object_net :: net where
  "empty_object_net rq = Inr \<lparr>status_code = 200, json = Some (JDict [])\<rparr>"

definition not_found_net :: net where
  "not_found_net rq = Inr \<lparr>status_code = 404, json = None\<rparr>"

definition error_net :: net where
  "error_net rq = Inr \<lparr>status_code = 500, json = None\<rparr>"

definition unreachable_net :: net where
  "unreachable_net rq = Inl RequestException"

text \<open>
  A user who types \<^verbatim>\<open>https://example.com/foo/bar\<close> and \<^verbatim>\<open>@alice\<close>, and the
  password \<^verbatim>\<open>secret\<close> (or \<^verbatim>\<open>hunter2\<close>) at the terminal.
\<close>

definition example_world :: world where
  "example_world =
     \<lparr>stdin = py_str ''https://example.com/foo/bar'' @ nl @ py_str ''@alice'' @ nl,
      tty = Some (py_str ''secret'' @ nl), trace = []\<rparr>"

definition other_world :: world where
  "other_world =
     \<lparr>stdin = py_str ''https://example.com/foo/bar'' @ nl @ py_str ''@alice'' @ nl,
      tty = Some (py_str ''hunter2'' @ nl), trace = []\<rparr>"

definition example_locals :: "str \<Rightarrow> locals" where
  "example_locals pw =
     \<lparr>account_name = py_str ''@alice@example.com'', account_type = 1,
      instance' = py_str ''example.com'', channel_name = py_str ''alice'', password = [],
      pword = pw\<rparr>"


section \<open>The substitutions against the specification's words\<close>

lemma ends_Chr_Seq:
  "ends (Seq (Chr c) r) n s = (case s of [] \<Rightarrow> [] | x # t \<Rightarrow> if x = c then ends r n t else [])"
  by (simp split: list.splits)

lemma ends_Bol_Seq:
  "ends (Seq Bol r) n s = (if length s = n then ends r n s else [])"
  by simp

lemma ends_Opt_Chr_Seq:
  "ends (Seq (Opt (Chr c)) r) n s =
     (case s of [] \<Rightarrow> ends r n s | x # t \<Rightarrow> if x = c then ends r n t @ ends r n s else ends r n s)"
  by (simp split: list.splits)

lemma ends_Chr: "ends (Chr c) n s = (case s of [] \<Rightarrow> [] | x # t \<Rightarrow> if x = c then [t] else [])"
  by simp

lemma sub_from_Nil: "ends r n [] = [] \<Longrightarrow> sub_from r repl n [] = []"
  by (simp add: sub_from.simps)

lemma sub_from_no_match:
  "ends r n (x # t) = [] \<Longrightarrow> sub_from r repl n (x # t) = x # sub_from r repl n t"
  by (simp add: sub_from.simps)

lemma sub_from_match:
  "ends r n s = e # es \<Longrightarrow> length e < length s \<Longrightarrow> sub_from r repl n s = repl @ sub_from r repl n e"
  by (simp add: sub_from.simps)

lemma sub_from_Bol_later:
  "length s < n \<Longrightarrow> sub_from (Seq Bol r) repl n s = s"
  by (induction s) (simp_all add: sub_from_Nil sub_from_no_match)

lemma ends_scheme:
  "ends scheme_re n s =
     (if length s = n then
        (if take 7 s = py_str ''http://'' then [drop 7 s]
         else if take 8 s = py_str ''https://'' then [drop 8 s] else [])
      else [])"
  unfolding scheme_re_def ends_Bol_Seq ends_Chr_Seq ends_Opt_Chr_Seq ends_Chr
  by (auto simp: py_str_def split: list.splits)


lemma re_sub_scheme_re: "re_sub scheme_re [] s = spec_strip_scheme s"
proof -
  let ?n = "length s"
  consider (a) "take 7 s = py_str ''http://''" | (b) "take 7 s \<noteq> py_str ''http://''" "take 8 s = py_str ''https://''"
    | (c) "take 7 s \<noteq> py_str ''http://''" "take 8 s \<noteq> py_str ''https://''" by blast
  then show ?thesis
  proof cases
    case a
    then have l: "7 \<le> length s" by (auto simp: py_str_def dest!: arg_cong[where f=length])
    have "ends scheme_re ?n s = [drop 7 s]" using a by (simp add: ends_scheme)
    moreover have "length (drop 7 s) < length s" using a l by (auto simp: py_str_def)
    ultimately have "sub_from scheme_re [] ?n s = sub_from scheme_re [] ?n (drop 7 s)"
      by (simp add: sub_from_match)
    also have "\<dots> = drop 7 s" using \<open>length (drop 7 s) < length s\<close>
      unfolding scheme_re_def by (rule sub_from_Bol_later)
    finally show ?thesis using a by (simp add: re_sub_def spec_strip_scheme_def)
  next
    case b
    then have l: "8 \<le> length s" by (auto simp: py_str_def dest!: arg_cong[where f=length])
    have "ends scheme_re ?n s = [drop 8 s]" using b by (simp add: ends_scheme)
    moreover have "length (drop 8 s) < length s" using b l by (auto simp: py_str_def)
    ultimately have "sub_from scheme_re [] ?n s = sub_from scheme_re [] ?n (drop 8 s)"
      by (simp add: sub_from_match)
    also have "\<dots> = drop 8 s" using \<open>length (drop 8 s) < length s\<close>
      unfolding scheme_re_def by (rule sub_from_Bol_later)
    finally show ?thesis using b by (simp add: re_sub_def spec_strip_scheme_def)
  next
    case c
    then have e: "ends scheme_re ?n s = []" by (simp add: ends_scheme)
    show ?thesis
    proof (cases s)
      case Nil
      then show ?thesis using e by (simp add: re_sub_def spec_strip_scheme_def sub_from_Nil py_str_def)
    next
      case (Cons x t)
      have "sub_from scheme_re [] ?n t = t"
        unfolding scheme_re_def by (rule sub_from_Bol_later) (simp add: Cons)
      then show ?thesis using e c Cons
        by (simp add: re_sub_def spec_strip_scheme_def sub_from_no_match)
    qed
  qed
qed

lemma re_sub_at: "re_sub at_re [] s = spec_strip_at s"
proof (cases s)
  case Nil
  then show ?thesis by (simp add: re_sub_def at_re_def spec_strip_at_def sub_from_Nil)
next
  case (Cons x t)
  have t: "sub_from at_re [] (length s) t = t"
    unfolding at_re_def by (rule sub_from_Bol_later) (simp add: Cons)
  show ?thesis
  proof (cases "x = of_char CHR ''@''")
    case True
    then have "ends at_re (length s) s = [t]" by (simp add: at_re_def Cons)
    then have "sub_from at_re [] (length s) s = sub_from at_re [] (length s) t"
      by (simp add: sub_from_match Cons)
    then show ?thesis using t True by (simp add: re_sub_def spec_strip_at_def Cons)
  next
    case False
    then have "ends at_re (length s) s = []" by (simp add: at_re_def Cons)
    then show ?thesis using t False by (simp add: re_sub_def spec_strip_at_def Cons sub_from_no_match)
  qed
qed

lemma ends_rest_line:
  "10 \<notin> set s \<Longrightarrow> ends (Seq (Star Dot) Eol) n s = [[]]"
proof (induction s)
  case Nil
  then show ?case by simp
next
  case (Cons x t)
  then have "x \<noteq> 10" "10 \<notin> set t" by auto
  then show ?case using Cons.IH by simp
qed

lemma sub_from_path:
  "10 \<notin> set s \<Longrightarrow> sub_from path_re [] n s = spec_strip_path s"
proof (induction s)
  case Nil
  then show ?case by (simp add: path_re_def spec_strip_path_def sub_from_Nil)
next
  case (Cons x t)
  then have nt: "10 \<notin> set t" by simp
  show ?case
  proof (cases "x = of_char CHR ''/''")
    case True
    have "ends path_re n (x # t) = [[]]"
      unfolding path_re_def ends_Chr_Seq using True ends_rest_line[OF nt] by simp
    then have "sub_from path_re [] n (x # t) = sub_from path_re [] n []"
      by (simp add: sub_from_match)
    then show ?thesis using True by (simp add: spec_strip_path_def sub_from_Nil path_re_def)
  next
    case False
    then have "ends path_re n (x # t) = []"
      unfolding path_re_def ends_Chr_Seq by simp
    then show ?thesis using False Cons.IH[OF nt] by (simp add: sub_from_no_match spec_strip_path_def)
  qed
qed

lemma re_sub_path: "10 \<notin> set s \<Longrightarrow> re_sub path_re [] s = spec_strip_path s"
  by (simp add: re_sub_def sub_from_path)

lemma spec_strip_scheme_set: "set (spec_strip_scheme s) \<subseteq> set s"
  by (auto simp: spec_strip_scheme_def dest: in_set_dropD)

lemma spec_strip_scheme_no_slash: "of_char CHR ''/'' \<notin> set s \<Longrightarrow> spec_strip_scheme s = s"
proof -
  assume a: "of_char CHR ''/'' \<notin> set s"
  have "take 7 s \<noteq> py_str ''http://''"
  proof
    assume "take 7 s = py_str ''http://''"
    then have "of_char CHR ''/'' \<in> set (take 7 s)" by (simp add: py_str_def)
    then show False using a by (auto dest: in_set_takeD)
  qed
  moreover have "take 8 s \<noteq> py_str ''https://''"
  proof
    assume "take 8 s = py_str ''https://''"
    then have "of_char CHR ''/'' \<in> set (take 8 s)" by (simp add: py_str_def)
    then show False using a by (auto dest: in_set_takeD)
  qed
  ultimately show ?thesis by (simp add: spec_strip_scheme_def)
qed

lemma sanitize_line:
  assumes "10 \<notin> set s"
  shows "re_sub path_re [] (re_sub scheme_re [] s) = spec_strip_path (spec_strip_scheme s)"
proof -
  have "10 \<notin> set (spec_strip_scheme s)" using assms spec_strip_scheme_set by blast
  then show ?thesis by (simp add: re_sub_scheme_re re_sub_path)
qed

lemma sanitize_twice:
  assumes "10 \<notin> set s"
  shows "re_sub path_re [] (re_sub scheme_re [] (re_sub path_re [] (re_sub scheme_re [] s)))
         = re_sub path_re [] (re_sub scheme_re [] s)"
proof -
  let ?r = "spec_strip_path (spec_strip_scheme s)"
  have r: "re_sub path_re [] (re_sub scheme_re [] s) = ?r" using assms by (rule sanitize_line)
  have sub: "set ?r \<subseteq> set s"
    using spec_strip_scheme_set[of s] by (auto simp: spec_strip_path_def dest: set_takeWhileD)
  have ns: "of_char CHR ''/'' \<notin> set ?r"
    by (auto simp: spec_strip_path_def dest: set_takeWhileD)
  have "10 \<notin> set ?r" using sub assms by blast
  then have "re_sub path_re [] (re_sub scheme_re [] ?r) = spec_strip_path (spec_strip_scheme ?r)"
    by (rule sanitize_line)
  also have "\<dots> = spec_strip_path ?r" using ns by (simp add: spec_strip_scheme_no_slash)
  also have "\<dots> = ?r"
    using ns unfolding spec_strip_path_def[of ?r] by (auto simp: takeWhile_eq_all_conv)
  finally show ?thesis by (simp add: r)
qed

lemma readline_no_newline: "readline s = Some (line, rest) \<Longrightarrow> 10 \<notin> set line"
  by (auto simp: readline_def split: if_splits dest: set_takeWhileD)

lemma input_no_newline: "fst (input p w) = Inr line \<Longrightarrow> 10 \<notin> set line"
  by (auto simp: input_def Let_def split: option.splits dest: readline_no_newline)

lemma sanitize_example:
  "re_sub path_re [] (re_sub scheme_re [] (py_str ''https://example.com/foo/bar''))
   = py_str ''example.com''"
  by (simp add: re_sub_scheme_re re_sub_path spec_strip_scheme_def spec_strip_path_def py_str_def)

lemma channel_example: "re_sub at_re [] (py_str ''@alice'') = py_str ''alice''"
  by (simp add: re_sub_at spec_strip_at_def py_str_def)

section \<open>Base64 output is ASCII\<close>

lemma b64_alphabet_ascii: "\<forall>c \<in> set b64_alphabet. (of_char c :: byte) < 0x80"
  by (simp add: b64_alphabet_def)

lemma b64_digit_ascii: "i < 64 \<Longrightarrow> b64_digit i < 0x80"
proof -
  assume "i < 64"
  then have "b64_alphabet ! i \<in> set b64_alphabet"
    by (intro nth_mem) (simp add: b64_alphabet_def)
  then show ?thesis using b64_alphabet_ascii by (simp add: b64_digit_def)
qed

lemma unat_byte: "unat (a :: byte) < 256"
  using unsigned_less[of a, where ?'a = nat] by simp

lemma b64encode_ascii: "\<forall>b \<in> set (b64encode bs). b < 0x80"
proof (induction bs rule: b64encode.induct)
  case 1
  then show ?case by simp
next
  case (2 a)
  have "unat a * 16 div 64 < 64" using unat_byte[of a] by simp
  then show ?case by (simp add: Let_def b64_digit_ascii)
next
  case (3 a b)
  have "(unat a * 256 + unat b) * 4 div 4096 < 64" using unat_byte[of a] unat_byte[of b] by simp
  then show ?case by (simp add: Let_def b64_digit_ascii)
next
  case (4 a b c r)
  have "(unat a * 65536 + unat b * 256 + unat c) div 262144 < 64"
    using unat_byte[of a] unat_byte[of b] unat_byte[of c] by simp
  then show ?case using 4 by (simp add: Let_def b64_digit_ascii)
qed

lemma decode_utf8_ascii: "\<forall>b \<in> set bs. b < 0x80 \<Longrightarrow> decode_utf8 bs = Inr (map unat bs)"
  by (induction bs) (simp_all add: push_def)

lemma decode_b64encode: "decode_utf8 (b64encode bs) = Inr (map unat (b64encode bs))"
  by (rule decode_utf8_ascii) (rule b64encode_ascii)

section \<open>What each check returns and sends\<close>

lemma basic_check_run:
  "basic_check net d w =
     ((case net \<lparr>http_method = py_str ''GET'', url = py_str ''https://'' @ d @ py_str ''/.well-known/host-meta'',
                  data = None, headers = None, params = None\<rparr> of
         Inl e \<Rightarrow> Inl e | Inr r \<Rightarrow> Inr (status_code r = 200)),
      emit (Http \<lparr>http_method = py_str ''GET'', url = py_str ''https://'' @ d @ py_str ''/.well-known/host-meta'',
                  data = None, headers = None, params = None\<rparr>) w)"
  by (simp add: basic_check_def io_bind_def requests_request_def io_return_def split: sum.splits)

lemma check_nodeinfo_run:
  "check_nodeinfo net d w =
     ((case net \<lparr>http_method = py_str ''GET'', url = py_str ''https://'' @ d @ py_str ''/nodeinfo/2.0'',
                  data = None, headers = None, params = None\<rparr> of
         Inl e \<Rightarrow> Inl e
       | Inr r \<Rightarrow>
           if status_code r = 404 then Inr True
           else (case response_json r of
                   Inl e \<Rightarrow> Inl e
                 | Inr v \<Rightarrow>
                    (case getitem v (py_str ''software'') of
                       Inl e \<Rightarrow> Inl e
                     | Inr sw \<Rightarrow>
                        (case getitem sw (py_str ''name'') of
                           Inl e \<Rightarrow> Inl e
                         | Inr nm \<Rightarrow> Inr (nm = JStr (py_str ''hubzilla'') \<or> nm = JStr (py_str ''redmatrix'')))))),
      emit (Http \<lparr>http_method = py_str ''GET'', url = py_str ''https://'' @ d @ py_str ''/nodeinfo/2.0'',
                  data = None, headers = None, params = None\<rparr>) w)"
  by (simp add: check_nodeinfo_def io_bind_def requests_request_def io_return_def io_lift_def
           split: sum.splits)

lemma check_usercred_run:
  "check_usercred net d name pw w =
     (case encode_utf8 (name @ py_str '':'' @ pw) of
        Inl e \<Rightarrow> (Inl e, w)
      | Inr bs \<Rightarrow>
          ((case net \<lparr>http_method = py_str ''POST'',
                       url = py_str ''https://'' @ d @ py_str ''/api/z/1.0/channel/export/basic'',
                       data = Some [],
                       headers = Some [(py_str ''authorization'', py_str ''Basic '' @ map unat (b64encode bs))],
                       params = Some [(py_str ''sections'', py_str ''channel''), (py_str ''posts'', py_str ''0'')]\<rparr> of
              Inl e \<Rightarrow> Inl e | Inr r \<Rightarrow> Inr (status_code r = 200)),
           emit (Http \<lparr>http_method = py_str ''POST'',
                       url = py_str ''https://'' @ d @ py_str ''/api/z/1.0/channel/export/basic'',
                       data = Some [],
                       headers = Some [(py_str ''authorization'', py_str ''Basic '' @ map unat (b64encode bs))],
                       params = Some [(py_str ''sections'', py_str ''channel''), (py_str ''posts'', py_str ''0'')]\<rparr>) w))"
  by (simp add: check_usercred_def io_bind_def requests_request_def io_return_def io_lift_def
           decode_b64encode Let_def split: sum.splits)

section \<open>Runs of the orchestrator\<close>

lemma io_bind_InrE:
  assumes "io_bind m f w = (Inr y, w'')"
  obtains x w' where "m w = (Inr x, w')" and "f x w' = (Inr y, w'')"
  using assms by (auto simp: io_bind_def split: prod.splits sum.splits)

lemma bail_Inr:
  assumes "(if ok = False then io_bind (print t e) (\<lambda>_. exit c) else io_return ()) w = (Inr u, w')"
  shows "ok" and "w' = w"
  using assms by (auto simp: io_bind_def print_def exit_def io_raise_def io_return_def split: if_splits)

lemma print_Inr:
  assumes "print t e w = (Inr u, w')"
  shows "stdin w' = stdin w" and "tty w' = tty w"
  using assms by (auto simp: print_def emit_def)

lemma input_Inr:
  assumes "input p w = (Inr line, w')"
  shows "\<exists>rest. readline (stdin w) = Some (line, rest) \<and> stdin w' = rest \<and> tty w' = tty w"
  using assms by (auto simp: input_def emit_def Let_def split: option.splits)

lemma getpass_fst:
  assumes "stdin a = stdin b" and "tty a = tty b"
  shows "fst (getpass p a) = fst (getpass q b)"
  using assms by (auto simp: getpass_def emit_def Let_def split: option.splits)

lemma basic_check_snd: "basic_check net d w = (r, w') \<Longrightarrow> stdin w' = stdin w \<and> tty w' = tty w"
  by (auto simp: basic_check_run emit_def)

lemma check_nodeinfo_snd: "check_nodeinfo net d w = (r, w') \<Longrightarrow> stdin w' = stdin w \<and> tty w' = tty w"
  by (auto simp: check_nodeinfo_run emit_def)

lemma basic_check_fst: "fst (basic_check net d w) = fst (basic_check net d w')"
  by (simp add: basic_check_run)

lemma check_nodeinfo_fst: "fst (check_nodeinfo net d w) = fst (check_nodeinfo net d w')"
  by (simp add: check_nodeinfo_run)

lemma check_usercred_fst: "fst (check_usercred net d n p w) = fst (check_usercred net d n p w')"
  by (simp add: check_usercred_run split: sum.splits)

lemma main_Inr:
  assumes "fst (main net w) = Inr l"
  shows "\<exists>entered rest typed rest' pw.
           readline (stdin w) = Some (entered, rest) \<and> readline rest = Some (typed, rest')
         \<and> fst (getpass p (w\<lparr>stdin := rest'\<rparr>)) = Inr pw
         \<and> fst (basic_check net (re_sub path_re [] (re_sub scheme_re [] entered)) w1) = Inr True
         \<and> fst (check_nodeinfo net (re_sub path_re [] (re_sub scheme_re [] entered)) w2) = Inr True
         \<and> fst (check_usercred net (re_sub path_re [] (re_sub scheme_re [] entered))
                  (re_sub at_re [] typed) pw w3) = Inr True
         \<and> l = \<lparr>account_name = py_str ''@'' @ re_sub at_re [] typed @ py_str ''@''
                                  @ re_sub path_re [] (re_sub scheme_re [] entered),
                 account_type = 1,
                 instance' = re_sub path_re [] (re_sub scheme_re [] entered),
                 channel_name = re_sub at_re [] typed, password = [], pword = pw\<rparr>"
proof -
  from assms obtain wf where "main net w = (Inr l, wf)" by (cases "main net w") auto
  then show ?thesis
    unfolding main_def Let_def
  proof (elim io_bind_InrE)
    fix x1 x2 x3 entered reachable x6 identified x8 typed pw authorized x12
      and v1 v2 v3 v4 v5 v6 v7 v8 v9 v10 v11 v12 :: world
    let ?inst = "re_sub path_re [] (re_sub scheme_re [] entered)"
    let ?chan = "re_sub at_re [] typed"
    assume p1: "print (py_str ''Cross - a Mastodon/Hubzilla cross-poster'') nl w = (Inr x1, v1)"
      and p2: "print (py_str ''       Holly Lotor Montalvo  2020       '') nl v1 = (Inr x2, v2)"
      and p3: "print (py_str ''----------------------------------------'') (nl @ nl) v2 = (Inr x3, v3)"
      and i1: "input (py_str ''Please enter your instance'' @ [39]
                 @ py_str ''s domain (i.e. example.com): '') v3 = (Inr entered, v4)"
      and b: "basic_check net ?inst v4 = (Inr reachable, v5)"
      and b': "(if reachable = False
          then io_bind (print (py_str ''Instance returned error upon validation. Something'' @ [39]
                 @ py_str ''s amiss with the instance. Bailing...'') nl) (\<lambda>_. exit 1)
          else io_return ()) v5 = (Inr x6, v6)"
      and n: "check_nodeinfo net ?inst v6 = (Inr identified, v7)"
      and n': "(if identified = False
          then io_bind (print (py_str ''Nodeinfo claims this isn'' @ [39]
                 @ py_str ''t a Hubzilla instance. Bailing...'') nl) (\<lambda>_. exit 1)
          else io_return ()) v7 = (Inr x8, v8)"
      and i2: "input (py_str ''Please enter your channel name (this is what goes before @''
                 @ ?inst @ py_str ''): '') v8 = (Inr typed, v9)"
      and g: "getpass (py_str ''Enter your password: '') v9 = (Inr pw, v10)"
      and u: "check_usercred net ?inst ?chan pw v10 = (Inr authorized, v11)"
      and u': "(if authorized = False
          then io_bind (print (py_str ''Authorization attempt failed. Bailing...'') nl) (\<lambda>_. exit 1)
          else io_return ()) v11 = (Inr x12, v12)"
      and r: "io_return \<lparr>account_name = py_str ''@'' @ ?chan @ py_str ''@'' @ ?inst, account_type = 1,
                instance' = ?inst, channel_name = ?chan, password = [], pword = pw\<rparr> v12 = (Inr l, wf)"
    from r have l: "l = \<lparr>account_name = py_str ''@'' @ ?chan @ py_str ''@'' @ ?inst, account_type = 1,
                instance' = ?inst, channel_name = ?chan, password = [], pword = pw\<rparr>"
      by (simp add: io_return_def)
    have s3: "stdin v3 = stdin w" "tty v3 = tty w"
      using print_Inr[OF p1] print_Inr[OF p2] print_Inr[OF p3] by simp_all
    from input_Inr[OF i1] s3 obtain rest where
      rd1: "readline (stdin w) = Some (entered, rest)" and s4: "stdin v4 = rest" "tty v4 = tty w"
      by auto
    have s8: "stdin v8 = rest" "tty v8 = tty w"
      using basic_check_snd[OF b] bail_Inr(2)[OF b'] check_nodeinfo_snd[OF n] bail_Inr(2)[OF n'] s4
      by simp_all
    from input_Inr[OF i2] s8 obtain rest' where
      rd2: "readline rest = Some (typed, rest')" and s9: "stdin v9 = rest'" "tty v9 = tty w"
      by auto
    have "fst (getpass p (w\<lparr>stdin := rest'\<rparr>)) = fst (getpass (py_str ''Enter your password: '') v9)"
      by (rule getpass_fst) (simp_all add: s9)
    with g have pw: "fst (getpass p (w\<lparr>stdin := rest'\<rparr>)) = Inr pw" by simp
    from b b' have k1: "fst (basic_check net ?inst w1) = Inr True"
      using bail_Inr(1)[OF b'] basic_check_fst[of net ?inst w1 v4] by simp
    from n n' have k2: "fst (check_nodeinfo net ?inst w2) = Inr True"
      using bail_Inr(1)[OF n'] check_nodeinfo_fst[of net ?inst w2 v6] by simp
    from u u' have k3: "fst (check_usercred net ?inst ?chan pw w3) = Inr True"
      using bail_Inr(1)[OF u'] check_usercred_fst[of net ?inst ?chan pw w3 v10] by simp
    show ?thesis using rd1 rd2 pw k1 k2 k3 l by blast
  qed
qed

lemma getpass_Inr:
  assumes "fst (getpass p a) = Inr pw"
  shows "\<exists>f. \<forall>q (b :: world). stdin b = stdin a \<longrightarrow> tty b = tty a \<longrightarrow> getpass q b = (Inr pw, f q b)"
proof (intro exI allI impI)
  fix q and b :: world
  assume "stdin b = stdin a" and "tty b = tty a"
  then have "fst (getpass q b) = fst (getpass p a)" by (rule getpass_fst)
  with assms show "getpass q b = (Inr pw, snd (getpass q b))" by (simp add: prod_eq_iff)
qed

lemma check_usercred_True:
  assumes "fst (check_usercred net d name pw w3) = Inr True"
  shows "\<exists>rq. \<forall>v. check_usercred net d name pw v = (Inr True, emit (Http rq) v)"
  using assms by (auto simp: check_usercred_run split: sum.splits)

lemma main_returns:
  assumes rd1: "readline (stdin w) = Some (entered, rest)"
    and rd2: "readline rest = Some (typed, rest')"
    and gp: "fst (getpass p (w\<lparr>stdin := rest'\<rparr>)) = Inr pw"
    and k1: "fst (basic_check net (re_sub path_re [] (re_sub scheme_re [] entered)) w1) = Inr True"
    and k2: "fst (check_nodeinfo net (re_sub path_re [] (re_sub scheme_re [] entered)) w2) = Inr True"
    and k3: "fst (check_usercred net (re_sub path_re [] (re_sub scheme_re [] entered))
                    (re_sub at_re [] typed) pw w3) = Inr True"
  shows "fst (main net w) =
           Inr \<lparr>account_name = py_str ''@'' @ re_sub at_re [] typed @ py_str ''@''
                                 @ re_sub path_re [] (re_sub scheme_re [] entered),
                account_type = 1,
                instance' = re_sub path_re [] (re_sub scheme_re [] entered),
                channel_name = re_sub at_re [] typed, password = [], pword = pw\<rparr>"
proof -
  let ?inst = "re_sub path_re [] (re_sub scheme_re [] entered)"
  let ?chan = "re_sub at_re [] typed"
  have b: "\<And>v. basic_check net ?inst v = (Inr True, emit (Http \<lparr>http_method = py_str ''GET'',
              url = py_str ''https://'' @ ?inst @ py_str ''/.well-known/host-meta'',
              data = None, headers = None, params = None\<rparr>) v)"
    using k1 by (simp add: basic_check_run)
  have n: "\<And>v. check_nodeinfo net ?inst v = (Inr True, emit (Http \<lparr>http_method = py_str ''GET'',
              url = py_str ''https://'' @ ?inst @ py_str ''/nodeinfo/2.0'',
              data = None, headers = None, params = None\<rparr>) v)"
    using k2 by (simp add: check_nodeinfo_run)
  from check_usercred_True[OF k3] obtain rq where
    u: "\<And>v. check_usercred net ?inst ?chan pw v = (Inr True, emit (Http rq) v)" by blast
  from getpass_Inr[OF gp] obtain f where
    g: "\<And>q b. stdin b = rest' \<Longrightarrow> tty b = tty w \<Longrightarrow> getpass q b = (Inr pw, f q b)"
    by auto
  show ?thesis
    unfolding main_def
    by (simp add: io_bind_def print_def input_def emit_def b n rd1 rd2 Let_def
          io_return_def u g)
qed

lemma readline_first: "readline (stdin example_world)
    = Some (py_str ''https://example.com/foo/bar'', py_str ''@alice'' @ nl)"
  by (simp add: readline_def example_world_def py_str_def nl_def)

lemma readline_first_other: "readline (stdin other_world)
    = Some (py_str ''https://example.com/foo/bar'', py_str ''@alice'' @ nl)"
  by (simp add: readline_def other_world_def py_str_def nl_def)

lemma readline_second: "readline (py_str ''@alice'' @ nl) = Some (py_str ''@alice'', [])"
  by (simp add: readline_def py_str_def nl_def)

lemma getpass_example:
  "fst (getpass p (example_world\<lparr>stdin := []\<rparr>)) = Inr (py_str ''secret'')"
  by (simp add: getpass_def emit_def example_world_def readline_def py_str_def nl_def)

lemma getpass_other:
  "fst (getpass p (other_world\<lparr>stdin := []\<rparr>)) = Inr (py_str ''hunter2'')"
  by (simp add: getpass_def emit_def other_world_def readline_def py_str_def nl_def)

lemma encode_py_str_ascii:
  "\<forall>c \<in> set cs. c < 0x80 \<Longrightarrow> encode_utf8 cs = Inr (map of_nat cs)"
  by (induction cs) (simp_all add: utf8_of_def)

lemma hubzilla_basic: "fst (basic_check hubzilla_net d v) = Inr True"
  by (simp add: basic_check_run hubzilla_net_def)

lemma hubzilla_nodeinfo: "fst (check_nodeinfo hubzilla_net d v) = Inr True"
  by (simp add: check_nodeinfo_run hubzilla_net_def response_json_def getitem_def)

lemma hubzilla_usercred:
  "\<forall>c \<in> set (name @ py_str '':'' @ pw). c < 0x80
   \<Longrightarrow> fst (check_usercred hubzilla_net d name pw v) = Inr True"
  by (simp add: check_usercred_run hubzilla_net_def encode_py_str_ascii)

lemma main_example:
  "fst (main hubzilla_net example_world) = Inr (example_locals (py_str ''secret''))"
proof -
  have "fst (check_usercred hubzilla_net (py_str ''example.com'') (py_str ''alice'')
               (py_str ''secret'') example_world) = Inr True"
    by (rule hubzilla_usercred) (simp add: py_str_def)
  with main_returns[OF readline_first readline_second getpass_example,
        of hubzilla_net example_world example_world example_world,
        unfolded sanitize_example channel_example, OF hubzilla_basic hubzilla_nodeinfo]
  show ?thesis by (simp add: example_locals_def py_str_def)
qed

lemma main_other:
  "fst (main hubzilla_net other_world) = Inr (example_locals (py_str ''hunter2''))"
proof -
  have "fst (check_usercred hubzilla_net (py_str ''example.com'') (py_str ''alice'')
               (py_str ''hunter2'') example_world) = Inr True"
    by (rule hubzilla_usercred) (simp add: py_str_def)
  with main_returns[OF readline_first_other readline_second getpass_other,
        of hubzilla_net example_world example_world example_world,
        unfolded sanitize_example channel_example, OF hubzilla_basic hubzilla_nodeinfo]
  show ?thesis by (simp add: example_locals_def py_str_def)
qed

section \<open>The first request of every run\<close>

lemma io_bind_trace:
  assumes "\<And>v. set (trace v) \<subseteq> set (trace (snd (m v)))"
    and "\<And>x v. set (trace v) \<subseteq> set (trace (snd (f x v)))"
  shows "set (trace w) \<subseteq> set (trace (snd (io_bind m f w)))"
proof (cases "m w")
  case (Pair r w')
  have 1: "set (trace w) \<subseteq> set (trace w')" using assms(1)[of w] Pair by simp
  show ?thesis
  proof (cases r)
    case (Inl e)
    then show ?thesis using 1 Pair by (simp add: io_bind_def)
  next
    case (Inr x)
    then show ?thesis using 1 Pair assms(2)[of w' x] by (auto simp: io_bind_def)
  qed
qed

lemma print_trace: "set (trace v) \<subseteq> set (trace (snd (print t e v)))"
  by (auto simp: print_def emit_def)

lemma input_trace: "set (trace v) \<subseteq> set (trace (snd (input p v)))"
  by (auto simp: input_def emit_def Let_def split: option.splits)

lemma getpass_trace: "set (trace v) \<subseteq> set (trace (snd (getpass p v)))"
  by (auto simp: getpass_def emit_def Let_def split: option.splits)

lemma io_return_trace: "set (trace v) \<subseteq> set (trace (snd (io_return x v)))"
  by (simp add: io_return_def)

lemma exit_trace: "set (trace v) \<subseteq> set (trace (snd (exit c v)))"
  by (simp add: exit_def io_raise_def)

lemma basic_check_trace: "set (trace v) \<subseteq> set (trace (snd (basic_check net d v)))"
  by (auto simp: basic_check_run emit_def)

lemma check_nodeinfo_trace: "set (trace v) \<subseteq> set (trace (snd (check_nodeinfo net d v)))"
  by (auto simp: check_nodeinfo_run emit_def)

lemma check_usercred_trace:
  "set (trace v) \<subseteq> set (trace (snd (check_usercred net d n p v)))"
  by (auto simp: check_usercred_run emit_def split: sum.splits)

lemma bail_trace:
  "set (trace v) \<subseteq> set (trace (snd ((if ok = False then io_bind (print t e) (\<lambda>_. exit c)
                                        else io_return ()) v)))"
  by (auto simp: io_bind_def print_def emit_def exit_def io_raise_def io_return_def)

lemma io_bind_later:
  assumes "m w = (Inr x, w')" and "ev \<in> set (trace (snd (f x w')))"
  shows "ev \<in> set (trace (snd (io_bind m f w)))"
  using assms by (simp add: io_bind_def)

lemma io_bind_first:
  assumes "ev \<in> set (trace (snd (m w)))"
    and "\<And>x v. set (trace v) \<subseteq> set (trace (snd (f x v)))"
  shows "ev \<in> set (trace (snd (io_bind m f w)))"
proof (cases "m w")
  case (Pair r w')
  show ?thesis
  proof (cases r)
    case (Inl e)
    then show ?thesis using assms(1) Pair by (simp add: io_bind_def)
  next
    case (Inr x)
    then show ?thesis using assms(1) Pair assms(2)[of w' x] by (auto simp: io_bind_def)
  qed
qed

lemma print_eq: "print t e w = (Inr (), emit (Stdout (t @ e)) w)"
  by (simp add: print_def)

lemma input_eq:
  "readline (stdin v) = Some (line, rest)
   \<Longrightarrow> input p v = (Inr line, (emit (Stdout p) v)\<lparr>stdin := rest\<rparr>)"
  by (simp add: input_def emit_def Let_def)

lemma main_requests_host_meta:
  assumes rd: "readline (stdin w) = Some (entered, rest)"
  shows "Http \<lparr>http_method = py_str ''GET'',
               url = py_str ''https://'' @ re_sub path_re [] (re_sub scheme_re [] entered)
                     @ py_str ''/.well-known/host-meta'',
               data = None, headers = None, params = None\<rparr>
         \<in> set (trace (snd (main net w)))"
proof -
  let ?v3 = "emit (Stdout (py_str ''----------------------------------------'' @ nl @ nl))
              (emit (Stdout (py_str ''       Holly Lotor Montalvo  2020       '' @ nl))
              (emit (Stdout (py_str ''Cross - a Mastodon/Hubzilla cross-poster'' @ nl)) w))"
  have r3: "readline (stdin ?v3) = Some (entered, rest)" using rd by (simp add: emit_def)
  show ?thesis
    unfolding main_def Let_def
    apply (rule io_bind_later, rule print_eq)
    apply (rule io_bind_later, rule print_eq)
    apply (rule io_bind_later, rule print_eq)
    apply (rule io_bind_later, rule input_eq, rule r3)
  proof (rule io_bind_first)
    show "Http \<lparr>http_method = py_str ''GET'',
               url = py_str ''https://'' @ re_sub path_re [] (re_sub scheme_re [] entered)
                     @ py_str ''/.well-known/host-meta'',
               data = None, headers = None, params = None\<rparr>
          \<in> set (trace (snd (basic_check net (re_sub path_re [] (re_sub scheme_re [] entered))
                 ((emit (Stdout (py_str ''Please enter your instance'' @ [39]
                      @ py_str ''s domain (i.e. example.com): ''))
                  (emit (Stdout (py_str ''----------------------------------------'' @ nl @ nl))
                  (emit (Stdout (py_str ''       Holly Lotor Montalvo  2020       '' @ nl))
                  (emit (Stdout (py_str ''Cross - a Mastodon/Hubzilla cross-poster'' @ nl)) w))))
                  \<lparr>stdin := rest\<rparr>))))"
      by (simp add: basic_check_run emit_def)
  next
    fix x v
    show "set (trace v) \<subseteq> set (trace (snd (io_bind
                (if x = False
                 then io_bind (print (py_str ''Instance returned error upon validation. Something''
                                    @ [39] @ py_str ''s amiss with the instance. Bailing...'') nl)
                        (\<lambda>_. exit 1)
                 else io_return ())
                (\<lambda>_. io_bind (check_nodeinfo net (re_sub path_re [] (re_sub scheme_re [] entered)))
                   (\<lambda>identified. io_bind
                      (if identified = False
                       then io_bind (print (py_str ''Nodeinfo claims this isn'' @ [39]
                                    @ py_str ''t a Hubzilla instance. Bailing...'') nl)
                              (\<lambda>_. exit 1)
                       else io_return ())
                      (\<lambda>_. io_bind (input (py_str ''Please enter your channel name (this is what goes before @''
                                      @ re_sub path_re [] (re_sub scheme_re [] entered) @ py_str ''): ''))
                         (\<lambda>typed. io_bind (getpass (py_str ''Enter your password: ''))
                            (\<lambda>pw. io_bind (check_usercred net (re_sub path_re [] (re_sub scheme_re [] entered))
                                             (re_sub at_re [] typed) pw)
                               (\<lambda>authorized. io_bind
                                  (if authorized = False
                                   then io_bind (print (py_str ''Authorization attempt failed. Bailing...'') nl)
                                          (\<lambda>_. exit 1)
                                   else io_return ())
                                  (\<lambda>_. io_return
                                     \<lparr>account_name = py_str ''@'' @ re_sub at_re [] typed @ py_str ''@''
                                          @ re_sub path_re [] (re_sub scheme_re [] entered),
                                      account_type = 1,
                                      instance' = re_sub path_re [] (re_sub scheme_re [] entered),
                                      channel_name = re_sub at_re [] typed,
                                      password = [], pword = pw\<rparr>))))))) v)))"
      by (intro io_bind_trace bail_trace check_nodeinfo_trace input_trace getpass_trace
            check_usercred_trace io_return_trace)
  qed
qed

section \<open>A missing key\<close>

text \<open>
  The comment in the \<^verbatim>\<open>else\<close> branch of \<^verbatim>\<open>check_nodeinfo\<close> reads "this key doesn't
  exist or includes something other than those two names". The branch is not reached when
  the key does not exist: on the document \<^verbatim>\<open>{}\<close> the lookup raises \<^verbatim>\<open>KeyError\<close>.
\<close>

lemma check_nodeinfo_missing_key:
  "fst (check_nodeinfo empty_object_net (py_str ''example.com'') example_world) = Inl KeyError"
  by (simp add: check_nodeinfo_run empty_object_net_def response_json_def getitem_def)

section \<open>The claims\<close>

subsection \<open>The software-identity check\<close>

text \<open>
  C1, as amended. When the GET to \<^verbatim>\<open>https://<domain>/nodeinfo/2.0\<close> returns a response
  whose status is not 404 and whose body parses to a document in which
  \<^verbatim>\<open>["software"]["name"]\<close> can be looked up, \<open>check_nodeinfo\<close> returns true iff that
  value is the string \<^verbatim>\<open>hubzilla\<close> or \<^verbatim>\<open>redmatrix\<close> (compared exactly), and false for
  any other value. When the body cannot be parsed, \<open>check_nodeinfo\<close> does not return
  false: the \<^verbatim>\<open>ValueError\<close> of \<^verbatim>\<open>.json()\<close> leaves the function.
\<close>

theorem check_nodeinfo_software_name:
  assumes "net \<lparr>http_method = py_str ''GET'', url = py_str ''https://'' @ d @ py_str ''/nodeinfo/2.0'',
                data = None, headers = None, params = None\<rparr> = Inr r"
    and "status_code r \<noteq> 404"
  shows "(json r = Some v \<and> getitem v (py_str ''software'') = Inr sw
            \<and> getitem sw (py_str ''name'') = Inr nm
          \<longrightarrow> fst (check_nodeinfo net d w)
              = Inr (nm = JStr (py_str ''hubzilla'') \<or> nm = JStr (py_str ''redmatrix'')))
       \<and> (json r = None \<longrightarrow> fst (check_nodeinfo net d w) = Inl ValueError)"
  using assms by (simp add: check_nodeinfo_run response_json_def)

theorem check_nodeinfo_software_name_witness:
  "fst (check_nodeinfo hubzilla_net (py_str ''example.com'') example_world) = Inr True
   \<and> fst (check_nodeinfo capital_net (py_str ''example.com'') example_world) = Inr False
   \<and> fst (check_nodeinfo garbled_net (py_str ''example.com'') example_world) = Inl ValueError"
proof (intro conjI)
  let ?rq = "\<lparr>http_method = py_str ''GET'', url = py_str ''https://'' @ py_str ''example.com''
               @ py_str ''/nodeinfo/2.0'', data = None, headers = None, params = None\<rparr>"
  let ?doc = "\<lambda>n. JDict [(py_str ''software'', JDict [(py_str ''name'', JStr n)])]"
  have look: "\<And>n. getitem (?doc n) (py_str ''software'') = Inr (JDict [(py_str ''name'', JStr n)])"
    "\<And>n. getitem (JDict [(py_str ''name'', JStr n)]) (py_str ''name'') = Inr (JStr n)"
    by (simp_all add: getitem_def)
  have h: "hubzilla_net ?rq = Inr \<lparr>status_code = 200, json = Some (?doc (py_str ''hubzilla''))\<rparr>"
    by (simp add: hubzilla_net_def)
  show "fst (check_nodeinfo hubzilla_net (py_str ''example.com'') example_world) = Inr True"
    using check_nodeinfo_software_name[where net = hubzilla_net and d = "py_str ''example.com''"
        and v = "?doc (py_str ''hubzilla'')" and nm = "JStr (py_str ''hubzilla'')"
        and sw = "JDict [(py_str ''name'', JStr (py_str ''hubzilla''))]"
        and w = example_world, OF h] look
    by simp
  have c: "capital_net ?rq = Inr \<lparr>status_code = 200, json = Some (?doc (py_str ''Hubzilla''))\<rparr>"
    by (simp add: capital_net_def)
  show "fst (check_nodeinfo capital_net (py_str ''example.com'') example_world) = Inr False"
    using check_nodeinfo_software_name[where net = capital_net and d = "py_str ''example.com''"
        and v = "?doc (py_str ''Hubzilla'')" and nm = "JStr (py_str ''Hubzilla'')"
        and sw = "JDict [(py_str ''name'', JStr (py_str ''Hubzilla''))]"
        and w = example_world, OF c] look
    by (simp add: py_str_def)
  have g: "garbled_net ?rq = Inr \<lparr>status_code = 200, json = None\<rparr>"
    by (simp add: garbled_net_def)
  show "fst (check_nodeinfo garbled_net (py_str ''example.com'') example_world) = Inl ValueError"
    using check_nodeinfo_software_name[where net = garbled_net and d = "py_str ''example.com''"
        and w = example_world, OF g] by simp
qed

text \<open>
  C1 as stated fails: for a 200 response whose body is no JSON document the check does
  not return false, it raises.
\<close>

theorem check_nodeinfo_unparseable_raises:
  "fst (check_nodeinfo garbled_net (py_str ''example.com'') example_world) = Inl ValueError
   \<and> fst (check_nodeinfo garbled_net (py_str ''example.com'') example_world) \<noteq> Inr False"
  by (simp add: check_nodeinfo_run garbled_net_def response_json_def)

text \<open>
  C4. When the GET to \<^verbatim>\<open>https://<domain>/nodeinfo/2.0\<close> returns status 404,
  \<open>check_nodeinfo\<close> returns true, whatever the body of the response.
\<close>

theorem check_nodeinfo_not_found:
  assumes "net \<lparr>http_method = py_str ''GET'', url = py_str ''https://'' @ d @ py_str ''/nodeinfo/2.0'',
                data = None, headers = None, params = None\<rparr> = Inr r"
    and "status_code r = 404"
  shows "fst (check_nodeinfo net d w) = Inr True"
  using assms by (simp add: check_nodeinfo_run)

theorem check_nodeinfo_not_found_witness:
  "not_found_net \<lparr>http_method = py_str ''GET'',
                   url = py_str ''https://'' @ py_str ''example.com'' @ py_str ''/nodeinfo/2.0'',
                   data = None, headers = None, params = None\<rparr>
     = Inr \<lparr>status_code = 404, json = None\<rparr>
   \<and> fst (check_nodeinfo not_found_net (py_str ''example.com'') example_world) = Inr True"
proof -
  have h: "not_found_net \<lparr>http_method = py_str ''GET'',
                   url = py_str ''https://'' @ py_str ''example.com'' @ py_str ''/nodeinfo/2.0'',
                   data = None, headers = None, params = None\<rparr>
     = Inr \<lparr>status_code = 404, json = None\<rparr>"
    by (simp add: not_found_net_def)
  show ?thesis
    using h check_nodeinfo_not_found[where net = not_found_net and d = "py_str ''example.com''"
        and w = example_world, OF h]
    by simp
qed

subsection \<open>The reachability check\<close>

text \<open>
  C2, as amended. \<open>basic_check\<close> returns true iff the GET to
  \<^verbatim>\<open>https://<domain>/.well-known/host-meta\<close> yields a response of status exactly 200, and
  false for a response of any other status. On a transport failure it does not return
  false: the exception of the HTTP client leaves the function.
\<close>

theorem basic_check_status:
  "fst (basic_check net d w) =
     (case net \<lparr>http_method = py_str ''GET'',
                 url = py_str ''https://'' @ d @ py_str ''/.well-known/host-meta'',
                 data = None, headers = None, params = None\<rparr> of
        Inl e \<Rightarrow> Inl e
      | Inr r \<Rightarrow> Inr (status_code r = 200))"
  by (simp add: basic_check_run)

text \<open>C2 as stated fails: when the host cannot be reached the check raises.\<close>

theorem basic_check_unreachable_raises:
  "fst (basic_check unreachable_net (py_str ''example.com'') example_world) = Inl RequestException
   \<and> fst (basic_check unreachable_net (py_str ''example.com'') example_world) \<noteq> Inr False"
  by (simp add: basic_check_run unreachable_net_def)

subsection \<open>The credential check\<close>

text \<open>
  C3, as amended. \<open>check_usercred\<close> returns true iff the POST to
  \<^verbatim>\<open>https://<domain>/api/z/1.0/channel/export/basic\<close> with the parameters
  \<^verbatim>\<open>sections=channel\<close> and \<^verbatim>\<open>posts=0\<close>, an empty body and the Basic authorization
  header yields a response of status exactly 200, and false for a response of any other
  status. When the request fails in transport, or the credentials have no UTF-8 encoding,
  it does not return false: the exception leaves the function.
\<close>

theorem check_usercred_status:
  "fst (check_usercred net d name pw w) =
     (case encode_utf8 (name @ py_str '':'' @ pw) of
        Inl e \<Rightarrow> Inl e
      | Inr bs \<Rightarrow>
          (case net \<lparr>http_method = py_str ''POST'',
                      url = py_str ''https://'' @ d @ py_str ''/api/z/1.0/channel/export/basic'',
                      data = Some [],
                      headers = Some [(py_str ''authorization'',
                                       py_str ''Basic '' @ map unat (b64encode bs))],
                      params = Some [(py_str ''sections'', py_str ''channel''),
                                     (py_str ''posts'', py_str ''0'')]\<rparr> of
             Inl e \<Rightarrow> Inl e
           | Inr r \<Rightarrow> Inr (status_code r = 200)))"
  by (simp add: check_usercred_run split: sum.splits)

text \<open>C3 as stated fails: when the host cannot be reached the check raises.\<close>

theorem check_usercred_unreachable_raises:
  "fst (check_usercred unreachable_net (py_str ''example.com'') (py_str ''alice'')
          (py_str ''secret'') example_world) = Inl RequestException
   \<and> fst (check_usercred unreachable_net (py_str ''example.com'') (py_str ''alice'')
          (py_str ''secret'') example_world) \<noteq> Inr False"
proof -
  have "\<forall>c \<in> set (py_str ''alice'' @ py_str '':'' @ py_str ''secret''). c < 0x80"
    by (simp add: py_str_def)
  then show ?thesis
    by (simp add: check_usercred_run unreachable_net_def encode_py_str_ascii)
qed

text \<open>
  C5. The request that \<open>check_usercred\<close> sends carries the header \<^verbatim>\<open>authorization\<close> with
  the value \<^verbatim>\<open>"Basic "\<close> followed by the Base64 text of the UTF-8 octets of
  \<^verbatim>\<open>name + ":" + password\<close>; for \<^verbatim>\<open>alice\<close> and \<^verbatim>\<open>secret\<close> the value is
  \<^verbatim>\<open>Basic YWxpY2U6c2VjcmV0\<close>.
\<close>

theorem usercheck_header_basic:
  "(encode_utf8 (name @ py_str '':'' @ pw) = Inr bs \<longrightarrow>
      snd (check_usercred net d name pw w) =
        emit (Http \<lparr>http_method = py_str ''POST'',
                     url = py_str ''https://'' @ d @ py_str ''/api/z/1.0/channel/export/basic'',
                     data = Some [],
                     headers = Some [(py_str ''authorization'',
                                      py_str ''Basic '' @ map unat (b64encode bs))],
                     params = Some [(py_str ''sections'', py_str ''channel''),
                                    (py_str ''posts'', py_str ''0'')]\<rparr>) w)
   \<and> snd (check_usercred net d (py_str ''alice'') (py_str ''secret'') w) =
        emit (Http \<lparr>http_method = py_str ''POST'',
                     url = py_str ''https://'' @ d @ py_str ''/api/z/1.0/channel/export/basic'',
                     data = Some [],
                     headers = Some [(py_str ''authorization'',
                                      py_str ''Basic YWxpY2U6c2VjcmV0'')],
                     params = Some [(py_str ''sections'', py_str ''channel''),
                                    (py_str ''posts'', py_str ''0'')]\<rparr>) w"
proof (intro conjI impI)
  assume "encode_utf8 (name @ py_str '':'' @ pw) = Inr bs"
  then show "snd (check_usercred net d name pw w) =
        emit (Http \<lparr>http_method = py_str ''POST'',
                     url = py_str ''https://'' @ d @ py_str ''/api/z/1.0/channel/export/basic'',
                     data = Some [],
                     headers = Some [(py_str ''authorization'',
                                      py_str ''Basic '' @ map unat (b64encode bs))],
                     params = Some [(py_str ''sections'', py_str ''channel''),
                                    (py_str ''posts'', py_str ''0'')]\<rparr>) w"
    by (simp add: check_usercred_run)
next
  have e: "encode_utf8 (py_str ''alice'' @ py_str '':'' @ py_str ''secret'')
           = Inr (map of_char ''alice:secret'')"
    by (simp add: py_str_def utf8_of_def)
  have b: "py_str ''Basic '' @ map unat (b64encode (map of_char ''alice:secret''))
           = py_str ''Basic YWxpY2U6c2VjcmV0''"
    by (simp add: b64_digit_def b64_alphabet_def py_str_def)
  have g: "snd (check_usercred net d (py_str ''alice'') (py_str ''secret'') w) =
        emit (Http \<lparr>http_method = py_str ''POST'',
                     url = py_str ''https://'' @ d @ py_str ''/api/z/1.0/channel/export/basic'',
                     data = Some [],
                     headers = Some [(py_str ''authorization'',
                                      py_str ''Basic ''
                                      @ map unat (b64encode (map of_char ''alice:secret'')))],
                     params = Some [(py_str ''sections'', py_str ''channel''),
                                    (py_str ''posts'', py_str ''0'')]\<rparr>) w"
    by (simp only: check_usercred_run e sum.case snd_conv)
  show "snd (check_usercred net d (py_str ''alice'') (py_str ''secret'') w) =
        emit (Http \<lparr>http_method = py_str ''POST'',
                     url = py_str ''https://'' @ d @ py_str ''/api/z/1.0/channel/export/basic'',
                     data = Some [],
                     headers = Some [(py_str ''authorization'',
                                      py_str ''Basic YWxpY2U6c2VjcmV0'')],
                     params = Some [(py_str ''sections'', py_str ''channel''),
                                    (py_str ''posts'', py_str ''0'')]\<rparr>) w"
    by (rule g[unfolded b])
qed

theorem usercheck_header_basic_witness:
  "encode_utf8 (py_str ''bob'' @ py_str '':'' @ py_str ''pw'') = Inr (map of_char ''bob:pw'')
   \<and> snd (check_usercred hubzilla_net (py_str ''example.com'') (py_str ''bob'') (py_str ''pw'')
          example_world) =
        emit (Http \<lparr>http_method = py_str ''POST'',
                     url = py_str ''https://'' @ py_str ''example.com''
                           @ py_str ''/api/z/1.0/channel/export/basic'',
                     data = Some [],
                     headers = Some [(py_str ''authorization'', py_str ''Basic Ym9iOnB3'')],
                     params = Some [(py_str ''sections'', py_str ''channel''),
                                    (py_str ''posts'', py_str ''0'')]\<rparr>) example_world"
proof -
  have e: "encode_utf8 (py_str ''bob'' @ py_str '':'' @ py_str ''pw'') = Inr (map of_char ''bob:pw'')"
    by (simp add: py_str_def utf8_of_def)
  have b: "py_str ''Basic '' @ map unat (b64encode (map of_char ''bob:pw'')) = py_str ''Basic Ym9iOnB3''"
    by (simp add: b64_digit_def b64_alphabet_def py_str_def)
  have s: "snd (check_usercred hubzilla_net (py_str ''example.com'') (py_str ''bob'') (py_str ''pw'')
          example_world) =
        emit (Http \<lparr>http_method = py_str ''POST'',
                     url = py_str ''https://'' @ py_str ''example.com''
                           @ py_str ''/api/z/1.0/channel/export/basic'',
                     data = Some [],
                     headers = Some [(py_str ''authorization'',
                                      py_str ''Basic '' @ map unat (b64encode (map of_char ''bob:pw'')))],
                     params = Some [(py_str ''sections'', py_str ''channel''),
                                    (py_str ''posts'', py_str ''0'')]\<rparr>) example_world"
    using e usercheck_header_basic[of "py_str ''bob''" "py_str ''pw''" "map of_char ''bob:pw''"
        hubzilla_net "py_str ''example.com''" example_world]
    by blast
  show ?thesis by (intro conjI) (rule e, rule s[unfolded b])
qed

subsection \<open>The sanitization of the input\<close>

text \<open>
  C6. \<^verbatim>\<open>main\<close> strips a leading \<^verbatim>\<open>http://\<close> or \<^verbatim>\<open>https://\<close> and everything from the
  first \<^verbatim>\<open>/\<close> onward from the domain that was entered: every run that reads a domain
  requests \<^verbatim>\<open>/.well-known/host-meta\<close> at the stripped domain, and a run that returns holds
  the stripped domain in \<^verbatim>\<open>instance\<close> and the channel name without a single leading
  \<^verbatim>\<open>@\<close> in \<^verbatim>\<open>channel_name\<close>. In particular \<^verbatim>\<open>https://example.com/foo/bar\<close> becomes
  \<^verbatim>\<open>example.com\<close> and \<^verbatim>\<open>@alice\<close> becomes \<^verbatim>\<open>alice\<close>.
\<close>

theorem main_sanitizes_input:
  assumes rd: "readline (stdin w) = Some (entered, rest)"
  shows "Http \<lparr>http_method = py_str ''GET'',
               url = py_str ''https://'' @ spec_strip_path (spec_strip_scheme entered)
                     @ py_str ''/.well-known/host-meta'',
               data = None, headers = None, params = None\<rparr>
           \<in> set (trace (snd (main net w)))
       \<and> (entered = py_str ''https://example.com/foo/bar'' \<longrightarrow>
            Http \<lparr>http_method = py_str ''GET'',
                  url = py_str ''https://'' @ py_str ''example.com''
                        @ py_str ''/.well-known/host-meta'',
                  data = None, headers = None, params = None\<rparr>
              \<in> set (trace (snd (main net w))))
       \<and> (fst (main net w) = Inr l \<and> readline rest = Some (typed, rest') \<longrightarrow>
              instance' l = spec_strip_path (spec_strip_scheme entered)
            \<and> channel_name l = spec_strip_at typed
            \<and> (entered = py_str ''https://example.com/foo/bar''
                 \<longrightarrow> instance' l = py_str ''example.com'')
            \<and> (typed = py_str ''@alice'' \<longrightarrow> channel_name l = py_str ''alice''))"
proof (intro conjI impI)
  have nn: "10 \<notin> set entered" using rd by (rule readline_no_newline)
  have s: "re_sub path_re [] (re_sub scheme_re [] entered)
           = spec_strip_path (spec_strip_scheme entered)"
    using nn by (rule sanitize_line)
  show h: "Http \<lparr>http_method = py_str ''GET'',
               url = py_str ''https://'' @ spec_strip_path (spec_strip_scheme entered)
                     @ py_str ''/.well-known/host-meta'',
               data = None, headers = None, params = None\<rparr>
           \<in> set (trace (snd (main net w)))"
    using main_requests_host_meta[OF rd, of net] by (simp only: s)
  {
    assume e: "entered = py_str ''https://example.com/foo/bar''"
    have "spec_strip_path (spec_strip_scheme entered) = py_str ''example.com''"
      using s sanitize_example by (simp only: e)
    with h show "Http \<lparr>http_method = py_str ''GET'',
                  url = py_str ''https://'' @ py_str ''example.com''
                        @ py_str ''/.well-known/host-meta'',
                  data = None, headers = None, params = None\<rparr>
              \<in> set (trace (snd (main net w)))"
      by simp
  }
  {
    assume a: "fst (main net w) = Inr l \<and> readline rest = Some (typed, rest')"
    from main_Inr[OF conjunct1[OF a], of "[]" w w w] rd a
    have i: "instance' l = re_sub path_re [] (re_sub scheme_re [] entered)"
      and c: "channel_name l = re_sub at_re [] typed"
      by auto
    show i': "instance' l = spec_strip_path (spec_strip_scheme entered)" using i s by simp
    show c': "channel_name l = spec_strip_at typed" using c by (simp add: re_sub_at)
    {
      assume "entered = py_str ''https://example.com/foo/bar''"
      then show "instance' l = py_str ''example.com''" using i sanitize_example by simp
    }
    {
      assume "typed = py_str ''@alice''"
      then show "channel_name l = py_str ''alice''" using c channel_example by simp
    }
  }
qed

theorem main_sanitizes_input_witness:
  "readline (stdin example_world)
     = Some (py_str ''https://example.com/foo/bar'', py_str ''@alice'' @ nl)
   \<and> readline (py_str ''@alice'' @ nl) = Some (py_str ''@alice'', [])
   \<and> fst (main hubzilla_net example_world) = Inr (example_locals (py_str ''secret''))
   \<and> instance' (example_locals (py_str ''secret'')) = py_str ''example.com''
   \<and> channel_name (example_locals (py_str ''secret'')) = py_str ''alice''
   \<and> Http \<lparr>http_method = py_str ''GET'',
            url = py_str ''https://'' @ py_str ''example.com'' @ py_str ''/.well-known/host-meta'',
            data = None, headers = None, params = None\<rparr>
         \<in> set (trace (snd (main hubzilla_net example_world)))"
  using readline_first readline_second main_example
    main_sanitizes_input[OF readline_first, of hubzilla_net "example_locals (py_str ''secret'')"
      "py_str ''@alice''" "[]"]
  by blast

text \<open>
  C9. The sanitization of the domain is idempotent on the strings it is applied to: for
  every string that \<^verbatim>\<open>input\<close> returns, the two substitutions applied twice give what
  they give applied once, and the \<^verbatim>\<open>instance\<close> of a run that returns is left as it is
  by another pass.
\<close>

theorem sanitize_idempotent:
  "(fst (input prompt w) = Inr s \<longrightarrow>
      re_sub path_re [] (re_sub scheme_re [] (re_sub path_re [] (re_sub scheme_re [] s)))
      = re_sub path_re [] (re_sub scheme_re [] s))
   \<and> (fst (main net w') = Inr l \<longrightarrow>
        re_sub path_re [] (re_sub scheme_re [] (instance' l)) = instance' l)"
proof (intro conjI impI)
  assume "fst (input prompt w) = Inr s"
  then have "10 \<notin> set s" by (rule input_no_newline)
  then show "re_sub path_re [] (re_sub scheme_re [] (re_sub path_re [] (re_sub scheme_re [] s)))
             = re_sub path_re [] (re_sub scheme_re [] s)"
    by (rule sanitize_twice)
next
  assume "fst (main net w') = Inr l"
  from main_Inr[OF this, of "[]" w' w' w'] obtain entered rest where
    rd: "readline (stdin w') = Some (entered, rest)"
    and i: "instance' l = re_sub path_re [] (re_sub scheme_re [] entered)"
    by auto
  have "10 \<notin> set entered" using rd by (rule readline_no_newline)
  then show "re_sub path_re [] (re_sub scheme_re [] (instance' l)) = instance' l"
    unfolding i by (rule sanitize_twice)
qed

theorem sanitize_idempotent_witness:
  "fst (input [] example_world) = Inr (py_str ''https://example.com/foo/bar'')
   \<and> re_sub path_re [] (re_sub scheme_re [] (re_sub path_re [] (re_sub scheme_re []
         (py_str ''https://example.com/foo/bar''))))
       = re_sub path_re [] (re_sub scheme_re [] (py_str ''https://example.com/foo/bar''))
   \<and> fst (main hubzilla_net example_world) = Inr (example_locals (py_str ''secret''))
   \<and> re_sub path_re [] (re_sub scheme_re [] (instance' (example_locals (py_str ''secret''))))
       = instance' (example_locals (py_str ''secret''))"
proof -
  have i: "fst (input [] example_world) = Inr (py_str ''https://example.com/foo/bar'')"
    by (simp add: input_def emit_def Let_def readline_first)
  show ?thesis
    using i main_example
      sanitize_idempotent[where prompt = "[]" and w = example_world
        and s = "py_str ''https://example.com/foo/bar''" and net = hubzilla_net
        and w' = example_world and l = "example_locals (py_str ''secret'')"]
    by blast
qed

subsection \<open>The orchestrator\<close>

text \<open>
  C7. In a run in which \<open>basic_check\<close> returns false, \<^verbatim>\<open>main\<close> prints the banner, the
  prompt for the domain and the diagnostic, and ends the process with status 1. The only
  request of the run is the one of \<open>basic_check\<close>: neither \<open>check_nodeinfo\<close> nor
  \<open>check_usercred\<close> is called, and nothing more is read.
\<close>

theorem main_bails_when_unreachable:
  assumes rd: "readline (stdin w) = Some (entered, rest)"
    and chk: "fst (basic_check net (re_sub path_re [] (re_sub scheme_re [] entered)) w1) = Inr False"
  shows "main net w =
     (Inl (SystemExit 1),
      w\<lparr>stdin := rest,
        trace := trace w @
          [Stdout (py_str ''Cross - a Mastodon/Hubzilla cross-poster'' @ nl),
           Stdout (py_str ''       Holly Lotor Montalvo  2020       '' @ nl),
           Stdout (py_str ''----------------------------------------'' @ nl @ nl),
           Stdout (py_str ''Please enter your instance'' @ [39]
                   @ py_str ''s domain (i.e. example.com): ''),
           Http \<lparr>http_method = py_str ''GET'',
                 url = py_str ''https://'' @ re_sub path_re [] (re_sub scheme_re [] entered)
                       @ py_str ''/.well-known/host-meta'',
                 data = None, headers = None, params = None\<rparr>,
           Stdout (py_str ''Instance returned error upon validation. Something'' @ [39]
                   @ py_str ''s amiss with the instance. Bailing...'' @ nl)]\<rparr>)"
proof -
  let ?rq = "\<lparr>http_method = py_str ''GET'',
                 url = py_str ''https://'' @ re_sub path_re [] (re_sub scheme_re [] entered)
                       @ py_str ''/.well-known/host-meta'',
                 data = None, headers = None, params = None\<rparr>"
  from chk have f: "(case net ?rq of Inl e \<Rightarrow> Inl e | Inr r \<Rightarrow> Inr (status_code r = 200))
                    = Inr False"
    by (simp add: basic_check_run)
  show ?thesis
    unfolding main_def
    by (simp add: io_bind_def print_def input_def emit_def basic_check_run f rd exit_def
          io_raise_def Let_def)
qed

theorem main_bails_when_unreachable_witness:
  "readline (stdin example_world)
     = Some (py_str ''https://example.com/foo/bar'', py_str ''@alice'' @ nl)
   \<and> fst (basic_check error_net (py_str ''example.com'') example_world) = Inr False
   \<and> fst (main error_net example_world) = Inl (SystemExit 1)
   \<and> stdin (snd (main error_net example_world)) = py_str ''@alice'' @ nl
   \<and> tty (snd (main error_net example_world)) = Some (py_str ''secret'' @ nl)
   \<and> [rq. Http rq \<leftarrow> trace (snd (main error_net example_world))]
       = [\<lparr>http_method = py_str ''GET'',
           url = py_str ''https://'' @ py_str ''example.com'' @ py_str ''/.well-known/host-meta'',
           data = None, headers = None, params = None\<rparr>]"
proof -
  have c: "fst (basic_check error_net (py_str ''example.com'') example_world) = Inr False"
    by (simp add: basic_check_run error_net_def)
  note t = main_bails_when_unreachable[OF readline_first, of error_net example_world,
      unfolded sanitize_example, OF c]
  have e: "trace example_world = []" "tty example_world = Some (py_str ''secret'' @ nl)"
    by (simp_all add: example_world_def)
  show ?thesis using readline_first c by (simp add: t e)
qed

text \<open>
  C8. \<^verbatim>\<open>main\<close> returns, and so has assigned \<^verbatim>\<open>account_name\<close>, exactly in the runs that
  read a domain, a channel name and a password and in which each of the three checks
  returns true on the sanitized domain, the sanitized channel name and the password; then
  \<^verbatim>\<open>account_name\<close> is \<^verbatim>\<open>"@" + channel_name + "@" + instance\<close>. A run in which a check
  returns false, or raises, does not return: it ends with an exception before the
  assignment.
\<close>

theorem account_name_after_checks:
  "fst (main net w) = Inr l \<longleftrightarrow>
     (\<exists>entered rest typed rest' pw.
         readline (stdin w) = Some (entered, rest) \<and> readline rest = Some (typed, rest')
       \<and> fst (getpass p (w\<lparr>stdin := rest'\<rparr>)) = Inr pw
       \<and> fst (basic_check net (re_sub path_re [] (re_sub scheme_re [] entered)) w1) = Inr True
       \<and> fst (check_nodeinfo net (re_sub path_re [] (re_sub scheme_re [] entered)) w2) = Inr True
       \<and> fst (check_usercred net (re_sub path_re [] (re_sub scheme_re [] entered))
                (re_sub at_re [] typed) pw w3) = Inr True
       \<and> l = \<lparr>account_name = py_str ''@'' @ re_sub at_re [] typed @ py_str ''@''
                                @ re_sub path_re [] (re_sub scheme_re [] entered),
               account_type = 1,
               instance' = re_sub path_re [] (re_sub scheme_re [] entered),
               channel_name = re_sub at_re [] typed, password = [], pword = pw\<rparr>)"
proof
  assume "fst (main net w) = Inr l"
  then show "\<exists>entered rest typed rest' pw.
         readline (stdin w) = Some (entered, rest) \<and> readline rest = Some (typed, rest')
       \<and> fst (getpass p (w\<lparr>stdin := rest'\<rparr>)) = Inr pw
       \<and> fst (basic_check net (re_sub path_re [] (re_sub scheme_re [] entered)) w1) = Inr True
       \<and> fst (check_nodeinfo net (re_sub path_re [] (re_sub scheme_re [] entered)) w2) = Inr True
       \<and> fst (check_usercred net (re_sub path_re [] (re_sub scheme_re [] entered))
                (re_sub at_re [] typed) pw w3) = Inr True
       \<and> l = \<lparr>account_name = py_str ''@'' @ re_sub at_re [] typed @ py_str ''@''
                                @ re_sub path_re [] (re_sub scheme_re [] entered),
               account_type = 1,
               instance' = re_sub path_re [] (re_sub scheme_re [] entered),
               channel_name = re_sub at_re [] typed, password = [], pword = pw\<rparr>"
    by (rule main_Inr)
next
  assume "\<exists>entered rest typed rest' pw.
         readline (stdin w) = Some (entered, rest) \<and> readline rest = Some (typed, rest')
       \<and> fst (getpass p (w\<lparr>stdin := rest'\<rparr>)) = Inr pw
       \<and> fst (basic_check net (re_sub path_re [] (re_sub scheme_re [] entered)) w1) = Inr True
       \<and> fst (check_nodeinfo net (re_sub path_re [] (re_sub scheme_re [] entered)) w2) = Inr True
       \<and> fst (check_usercred net (re_sub path_re [] (re_sub scheme_re [] entered))
                (re_sub at_re [] typed) pw w3) = Inr True
       \<and> l = \<lparr>account_name = py_str ''@'' @ re_sub at_re [] typed @ py_str ''@''
                                @ re_sub path_re [] (re_sub scheme_re [] entered),
               account_type = 1,
               instance' = re_sub path_re [] (re_sub scheme_re [] entered),
               channel_name = re_sub at_re [] typed, password = [], pword = pw\<rparr>"
  then obtain entered rest typed rest' pw where
    f: "readline (stdin w) = Some (entered, rest)" "readline rest = Some (typed, rest')"
    "fst (getpass p (w\<lparr>stdin := rest'\<rparr>)) = Inr pw"
    "fst (basic_check net (re_sub path_re [] (re_sub scheme_re [] entered)) w1) = Inr True"
    "fst (check_nodeinfo net (re_sub path_re [] (re_sub scheme_re [] entered)) w2) = Inr True"
    "fst (check_usercred net (re_sub path_re [] (re_sub scheme_re [] entered))
                (re_sub at_re [] typed) pw w3) = Inr True"
    and l: "l = \<lparr>account_name = py_str ''@'' @ re_sub at_re [] typed @ py_str ''@''
                                @ re_sub path_re [] (re_sub scheme_re [] entered),
               account_type = 1,
               instance' = re_sub path_re [] (re_sub scheme_re [] entered),
               channel_name = re_sub at_re [] typed, password = [], pword = pw\<rparr>"
    by blast
  from f show "fst (main net w) = Inr l" unfolding l by (rule main_returns)
qed

theorem account_name_after_checks_witness:
  "fst (main hubzilla_net example_world) = Inr (example_locals (py_str ''secret''))
   \<and> account_name (example_locals (py_str ''secret'')) = py_str ''@alice@example.com''"
proof -
  have u: "fst (check_usercred hubzilla_net (py_str ''example.com'') (py_str ''alice'')
                  (py_str ''secret'') example_world) = Inr True"
    by (rule hubzilla_usercred) (simp add: py_str_def)
  have l: "example_locals (py_str ''secret'')
           = \<lparr>account_name = py_str ''@'' @ py_str ''alice'' @ py_str ''@'' @ py_str ''example.com'',
              account_type = 1, instance' = py_str ''example.com'',
              channel_name = py_str ''alice'', password = [], pword = py_str ''secret''\<rparr>"
    by (simp add: example_locals_def py_str_def)
  have "\<exists>entered rest typed rest' pw.
         readline (stdin example_world) = Some (entered, rest)
       \<and> readline rest = Some (typed, rest')
       \<and> fst (getpass [] (example_world\<lparr>stdin := rest'\<rparr>)) = Inr pw
       \<and> fst (basic_check hubzilla_net (re_sub path_re [] (re_sub scheme_re [] entered))
              example_world) = Inr True
       \<and> fst (check_nodeinfo hubzilla_net (re_sub path_re [] (re_sub scheme_re [] entered))
              example_world) = Inr True
       \<and> fst (check_usercred hubzilla_net (re_sub path_re [] (re_sub scheme_re [] entered))
                (re_sub at_re [] typed) pw example_world) = Inr True
       \<and> example_locals (py_str ''secret'')
           = \<lparr>account_name = py_str ''@'' @ re_sub at_re [] typed @ py_str ''@''
                                @ re_sub path_re [] (re_sub scheme_re [] entered),
               account_type = 1,
               instance' = re_sub path_re [] (re_sub scheme_re [] entered),
               channel_name = re_sub at_re [] typed, password = [], pword = pw\<rparr>"
    using readline_first readline_second getpass_example[of "[]"] hubzilla_basic hubzilla_nodeinfo
      u l
    by (intro exI[of _ "py_str ''https://example.com/foo/bar''"] exI[of _ "py_str ''@alice'' @ nl"]
          exI[of _ "py_str ''@alice''"] exI[of _ "[]"] exI[of _ "py_str ''secret''"])
       (simp add: sanitize_example channel_example)
  then have "fst (main hubzilla_net example_world) = Inr (example_locals (py_str ''secret''))"
    by (rule account_name_after_checks[THEN iffD2])
  then show ?thesis by (simp add: example_locals_def)
qed

text \<open>
  C10. Two runs that read the same domain and the same channel name, and in which all
  three checks return true, end with the same \<^verbatim>\<open>account_name\<close>, whatever the passwords
  and whatever the remote sides.
\<close>

theorem account_name_ignores_password:
  assumes r1: "fst (main net1 w1) = Inr l1"
    and r2: "fst (main net2 w2) = Inr l2"
    and d1: "readline (stdin w1) = Some (entered, rest1)"
    and c1: "readline rest1 = Some (typed, rest1')"
    and d2: "readline (stdin w2) = Some (entered, rest2)"
    and c2: "readline rest2 = Some (typed, rest2')"
  shows "account_name l1 = account_name l2"
proof -
  from main_Inr[OF r1, of "[]" w1 w1 w1] d1 c1
  have a1: "account_name l1 = py_str ''@'' @ re_sub at_re [] typed @ py_str ''@''
                              @ re_sub path_re [] (re_sub scheme_re [] entered)"
    by auto
  from main_Inr[OF r2, of "[]" w2 w2 w2] d2 c2
  have a2: "account_name l2 = py_str ''@'' @ re_sub at_re [] typed @ py_str ''@''
                              @ re_sub path_re [] (re_sub scheme_re [] entered)"
    by auto
  show ?thesis by (simp add: a1 a2)
qed

theorem account_name_ignores_password_witness:
  "fst (main hubzilla_net example_world) = Inr (example_locals (py_str ''secret''))
   \<and> fst (main hubzilla_net other_world) = Inr (example_locals (py_str ''hunter2''))
   \<and> pword (example_locals (py_str ''secret'')) \<noteq> pword (example_locals (py_str ''hunter2''))
   \<and> account_name (example_locals (py_str ''secret''))
       = account_name (example_locals (py_str ''hunter2''))"
proof -
  have p: "pword (example_locals (py_str ''secret'')) \<noteq> pword (example_locals (py_str ''hunter2''))"
    by (simp add: example_locals_def py_str_def)
  show ?thesis
    using main_example main_other p
      account_name_ignores_password[OF main_example main_other readline_first readline_second
        readline_first_other readline_second]
    by blast
qed

end
